theory Spec2Isabelle
  imports Main "HOL-Library.Word" "HOL-Library.Signed_Division"
begin

unbundle bit_operations_syntax

section \<open>The keai evaluator: syntax trees, values and process state\<close>

text \<open>
  This theory embeds the tree-walking evaluator of keai (package \<open>evaluator\<close>) in HOL.
  Go's \<open>int64\<close> is \<open>64 word\<close>; Go strings are byte sequences, so they are HOL
  strings (\<open>char\<close> is a byte). Packages \<open>ast\<close>, \<open>object\<close>, \<open>lexer\<close>, \<open>parser\<close> and
  \<open>utils\<close> are not among the sources: the node and value types below follow the fields
  the evaluator reads and writes, and what the evaluator only calls is either modelled
  from the specification (and marked so) or a field of the record \<open>world\<close>.
\<close>

type_synonym int64 = "64 word"

text \<open>A \<open>float64\<close> is kept as its IEEE-754 bit pattern; arithmetic on it is not modelled.\<close>

type_synonym float64 = "64 word"

text \<open>
  The node kinds \<open>evalContext\<close> switches on, with the fields it reads. Maps that Go
  ranges over (\<open>Defaults\<close>, \<open>Pairs\<close>) are lists in the order of the iteration.
\<close>

datatype node =
    Program "node list"
  | ExpressionStatement node
  | IntegerLiteral int64
  | FloatLiteral float64
  | BooleanLiteral bool
  | NullLiteral
  | PrefixExpression string node
  | PostfixExpression string string
  | InfixExpression node string node
  | BlockStatement "node list"
  | IfExpression node node "node option"
  | ImportExpression node
  | ForLoopExpression node node
  | ForeachStatement string string node node
  | ReturnStatement node
  | MutableStatement string node
  | LetStatement string node
  | Identifier string
  | FunctionLiteral "string list" "(string \<times> node) list" node
  | CallExpression node "node list"
  | ArrayLiteral "node list"
  | StringLiteral string
  | SpreadLiteral string
  | CurrentArgsLiteral
  | IndexExpression node node
  | AssignStatement string string node
  | HashLiteral "(node \<times> node) list"

text \<open>
  \<open>PostfixExpression tok op\<close> carries \<open>Token.Literal\<close> and \<open>Operator\<close>;
  \<open>ForeachStatement ident index value body\<close> has \<open>index = ''''\<close> when there is none;
  \<open>AssignStatement name op value\<close> carries \<open>Name.String()\<close>.
\<close>

text \<open>
  Modelled from the spec: the hash key of a hashable value (section 3.1: Null, Boolean,
  Integer and String are hashable); package \<open>object\<close> is not among the sources.
\<close>

datatype hashKey = HKNull | HKBoolean bool | HKInteger int64 | HKString string

text \<open>
  Values (\<open>object.Object\<close>). \<open>Nil\<close> is Go's nil interface, which \<open>Eval\<close> returns for
  an empty program or block. \<open>Array elements isCurrentArgs\<close>; \<open>Hash pairs\<close> maps a hash
  key to its \<open>HashPair{Key, Value}\<close>; \<open>Function parameters defaults body env\<close> holds the
  address of its captured environment; \<open>Error message code data builtinCall\<close> has
  \<open>code = None\<close> for a nil \<open>*int\<close>. \<open>TRUE\<close>, \<open>FALSE\<close> and \<open>NULL\<close> are the only Boolean
  and Null objects the evaluator creates, so comparing them by identity is comparing
  them by value.
\<close>

datatype obj =
    Nil
  | Null
  | Boolean bool
  | Integer int64
  | Float float64
  | String string
  | Array "obj list" bool
  | Hash "(hashKey \<times> obj \<times> obj) list"
  | Function "string list" "(string \<times> node) list" node nat
  | Builtin string
  | Module string obj
  | Error string "int64 option" string bool
  | ReturnValue obj

datatype objType =
    INTEGER_OBJ | FLOAT_OBJ | BOOLEAN_OBJ | NULL_OBJ | STRING_OBJ | ARRAY_OBJ | HASH_OBJ
  | FUNCTION_OBJ | BUILTIN_OBJ | MODULE_OBJ | ERROR_OBJ | RETURN_VALUE_OBJ

text \<open>\<open>Type()\<close>; \<open>None\<close> on nil, where the Go call is a nil-pointer panic.\<close>

fun Type :: "obj \<Rightarrow> objType option" where
  "Type Nil = None"
| "Type Null = Some NULL_OBJ"
| "Type (Boolean b) = Some BOOLEAN_OBJ"
| "Type (Integer i) = Some INTEGER_OBJ"
| "Type (Float f) = Some FLOAT_OBJ"
| "Type (String s) = Some STRING_OBJ"
| "Type (Array xs c) = Some ARRAY_OBJ"
| "Type (Hash ps) = Some HASH_OBJ"
| "Type (Function ps ds b e) = Some FUNCTION_OBJ"
| "Type (Builtin n) = Some BUILTIN_OBJ"
| "Type (Module n a) = Some MODULE_OBJ"
| "Type (Error m c d b) = Some ERROR_OBJ"
| "Type (ReturnValue v) = Some RETURN_VALUE_OBJ"

text \<open>Modelled from the spec: the type tags as text (section 3.1), used in messages.\<close>

fun typeString :: "objType \<Rightarrow> string" where
  "typeString INTEGER_OBJ = ''INTEGER''"
| "typeString FLOAT_OBJ = ''FLOAT''"
| "typeString BOOLEAN_OBJ = ''BOOLEAN''"
| "typeString NULL_OBJ = ''NULL''"
| "typeString STRING_OBJ = ''STRING''"
| "typeString ARRAY_OBJ = ''ARRAY''"
| "typeString HASH_OBJ = ''HASH''"
| "typeString FUNCTION_OBJ = ''FUNCTION''"
| "typeString BUILTIN_OBJ = ''BUILTIN''"
| "typeString MODULE_OBJ = ''MODULE''"
| "typeString ERROR_OBJ = ''ERROR''"
| "typeString RETURN_VALUE_OBJ = ''RETURN_VALUE''"

text \<open>
  An environment frame (section 3.2): the bindings with their immutability flag, the
  parent, the permit set and the current arguments. Environments are shared by
  reference, so the state holds them in a heap and a pointer is an index into it.
\<close>

record frame =
  store :: "(string \<times> obj \<times> bool) list"
  outer :: "nat option"
  permit :: "string list"
  currentArgs :: "obj list"

text \<open>
  The process state: the heap of environments, what was written to standard output and
  to standard error (one entry per write), the module cache \<open>importCache\<close>, the files of
  the file system (\<open>None\<close> for a path that exists and cannot be read), and the names of
  the modules whose source has been handed to \<open>Eval\<close>, in order.
\<close>

record state =
  heap :: "frame list"
  stdout :: "string list"
  stderr :: "string list"
  importCache :: "(string \<times> obj) list"
  files :: "(string \<times> string option) list"
  evaluatedModules :: "string list"

text \<open>
  How a computation ends: with a value, by \<open>os.Exit\<close> with a code, by a Go run-time
  panic (nothing in the sources recovers one), or by running out of the fuel that bounds
  the recursion of this embedding.
\<close>

datatype 'a res = Ok 'a | Exit int64 | Panic string | OutOfFuel

type_synonym 'a result = "'a res \<times> state"

definition bind :: "'a result \<Rightarrow> ('a \<Rightarrow> state \<Rightarrow> 'b result) \<Rightarrow> 'b result" where
  "bind m f = (case m of
      (Ok a, st) \<Rightarrow> f a st
    | (Exit c, st) \<Rightarrow> (Exit c, st)
    | (Panic p, st) \<Rightarrow> (Panic p, st)
    | (OutOfFuel, st) \<Rightarrow> (OutOfFuel, st))"

type_synonym evalfn = "node \<Rightarrow> nat \<Rightarrow> state \<Rightarrow> obj result"

text \<open>
  What the evaluator calls and the sources do not hold: the lexer and parser
  (\<open>parse src\<close> gives the statements of the program and the parser's errors), the
  methods \<open>Inspect\<close>, \<open>JSON(false)\<close> and \<open>GetMethod\<close> of the values, the text of an
  expression node (\<open>String()\<close>), the built-ins registered by other files, IEEE
  arithmetic (the three float branches of \<open>evalInfixExpression\<close> and \<open>math.Pow\<close>),
  \<open>strconv.Unquote\<close>, whether two values of a reference type are the same object
  (\<open>identical\<close>; the embedding keeps values, not their addresses), and the module
  search path with \<open>filepath.Join\<close>.
\<close>

record world =
  parse :: "string \<Rightarrow> node list \<times> string list"
  Inspect :: "obj \<Rightarrow> string"
  JSON :: "obj \<Rightarrow> string"
  GetMethod :: "obj \<Rightarrow> string \<Rightarrow> string option"
  nodeString :: "node \<Rightarrow> string"
  otherBuiltin :: "string \<Rightarrow> bool"
  nativeFn :: "string \<Rightarrow> nat \<Rightarrow> obj list \<Rightarrow> state \<Rightarrow> obj result"
  floatInfix :: "string \<Rightarrow> obj \<Rightarrow> obj \<Rightarrow> obj"
  intPow :: "int64 \<Rightarrow> int64 \<Rightarrow> int64"
  Unquote :: "string \<Rightarrow> string option"
  identical :: "obj \<Rightarrow> obj \<Rightarrow> bool"
  searchPaths :: "string list"
  joinPath :: "string \<Rightarrow> string \<Rightarrow> string"


section \<open>Go strings and formatting\<close>

text \<open>
  \<open>[]rune(str)\<close> decodes UTF-8: \<open>decodeRune\<close> gives the first code point of a
  string and the number of bytes it takes; a byte that starts no valid encoding decodes
  to U+FFFD and takes one byte.
\<close>

fun decodeRune :: "string \<Rightarrow> nat \<times> nat" where
  "decodeRune [] = (65533, 0)"
| "decodeRune (c # cs) =
    (let s0 = (of_char c :: nat) in
     if s0 < 128 then (s0, 1)
     else if s0 < 194 \<or> 244 < s0 then (65533, 1)
     else
       let sz = (if s0 < 224 then 2 else if s0 < 240 then 3 else (4::nat));
           lo = (if s0 = 224 then 160 else if s0 = 240 then 144 else (128::nat));
           hi = (if s0 = 237 then 159 else if s0 = 244 then 143 else (191::nat))
       in if length cs + 1 < sz then (65533, 1)
          else
            let s1 = (of_char (cs ! 0) :: nat) in
            if s1 < lo \<or> hi < s1 then (65533, 1)
            else if sz \<le> 2 then ((s0 mod 32) * 64 + s1 mod 64, 2)
            else
              let s2 = (of_char (cs ! 1) :: nat) in
              if s2 < 128 \<or> 191 < s2 then (65533, 1)
              else if sz \<le> 3 then ((s0 mod 16) * 4096 + (s1 mod 64) * 64 + s2 mod 64, 3)
              else
                let s3 = (of_char (cs ! 2) :: nat) in
                if s3 < 128 \<or> 191 < s3 then (65533, 1)
                else ((s0 mod 8) * 262144 + (s1 mod 64) * 4096 + (s2 mod 64) * 64
                        + s3 mod 64, 4))"

fun runes :: "string \<Rightarrow> nat list" where
  "runes [] = []"
| "runes (c # cs) =
    fst (decodeRune (c # cs)) # runes (drop (snd (decodeRune (c # cs)) - 1) cs)"

text \<open>\<open>string(r)\<close> for a rune \<open>r\<close>: its UTF-8 encoding.\<close>

definition encodeRune :: "nat \<Rightarrow> string" where
  "encodeRune r =
    (if r < 128 then [char_of r]
     else if r < 2048 then [char_of (192 + r div 64), char_of (128 + r mod 64)]
     else if (55296 \<le> r \<and> r \<le> 57343) \<or> 1114111 < r
       then [char_of (239::nat), char_of (191::nat), char_of (189::nat)]
     else if r < 65536
       then [char_of (224 + r div 4096), char_of (128 + (r div 64) mod 64),
             char_of (128 + r mod 64)]
     else [char_of (240 + r div 262144), char_of (128 + (r div 4096) mod 64),
           char_of (128 + (r div 64) mod 64), char_of (128 + r mod 64)])"

text \<open>\<open>%d\<close> of a length.\<close>

fun showNat :: "nat \<Rightarrow> string" where
  "showNat n =
    (if n < 10 then [char_of (48 + n)] else showNat (n div 10) @ [char_of (48 + n mod 10)])"

declare showNat.simps [simp del]

text \<open>\<open>strings.ToLower\<close> on the ASCII letters of a type tag.\<close>

definition toLower :: "string \<Rightarrow> string" where
  "toLower s =
    map (\<lambda>c. if 65 \<le> (of_char c :: nat) \<and> (of_char c :: nat) \<le> 90
              then char_of ((of_char c :: nat) + 32) else c) s"

text \<open>Go compares strings byte by byte.\<close>

fun strLess :: "string \<Rightarrow> string \<Rightarrow> bool" where
  "strLess [] [] = False"
| "strLess [] (y # ys) = True"
| "strLess (x # xs) [] = False"
| "strLess (x # xs) (y # ys) =
    ((of_char x :: nat) < of_char y \<or> (x = y \<and> strLess xs ys))"

definition newline :: string where
  "newline = [CHR 0x0A]"

text \<open>\<open>%s\<close> of a \<open>[]string\<close>.\<close>

fun joinWords :: "string list \<Rightarrow> string" where
  "joinWords [] = []"
| "joinWords [x] = x"
| "joinWords (x # y # ys) = x @ '' '' @ joinWords (y # ys)"

definition showStrings :: "string list \<Rightarrow> string" where
  "showStrings xs = ''['' @ joinWords xs @ '']''"

section \<open>Errors and process exit\<close>

text \<open>\<open>NewError\<close> (utils.go): an Error with the message and nothing else set.\<close>

definition NewError :: "string \<Rightarrow> obj" where
  "NewError message = Error message None [] False"

definition isError :: "obj \<Rightarrow> bool" where
  "isError obj = (Type obj = Some ERROR_OBJ)"

text \<open>\<open>%s\<close> of \<open>x.Type()\<close> inside an error message; the call panics on nil.\<close>

definition typeText :: "obj \<Rightarrow> string res" where
  "typeText x = (case Type x of None \<Rightarrow> Panic ''nil pointer dereference''
                 | Some t \<Rightarrow> Ok (typeString t))"

text \<open>
  Modelled from the spec: \<open>utils.ExitConditionally\<close>, which is not among the sources,
  terminates the process with the code (sections 4.D and 7). The REPL switches the exit
  off (\<open>utils.SetReplOrRun(true)\<close> in repl.go); this embedding is of batch execution
  (\<open>Execute\<close> in keai.go), where it is on.
\<close>

definition ExitConditionally :: "int64 \<Rightarrow> state \<Rightarrow> 'a result" where
  "ExitConditionally c st = (Exit c, st)"

definition printOut :: "string \<Rightarrow> state \<Rightarrow> state" where
  "printOut s st = st\<lparr>stdout := stdout st @ [s]\<rparr>"

definition printErr :: "string \<Rightarrow> state \<Rightarrow> state" where
  "printErr s st = st\<lparr>stderr := stderr st @ [s]\<rparr>"

definition pure :: "'a res \<Rightarrow> state \<Rightarrow> 'a result" where
  "pure r st = (r, st)"

section \<open>Environments\<close>

text \<open>
  Package \<open>object\<close> is not among the sources, so \<open>object.Environment\<close> and its
  operations are modelled from sections 3.2 and 4.B of the specification. The sources
  confirm two points: the evaluator binds parameters, loop variables and \<open>mutable\<close> names
  through \<open>Set\<close>, so \<open>Set\<close> binds a name that is not bound yet; and
  \<open>evalAssignStatement\<close> hands every assignment to \<open>Set\<close> unchecked, so it is \<open>Set\<close>
  that keeps \<open>let\<close> bindings immutable, as the README promises.
\<close>

definition alloc :: "frame \<Rightarrow> state \<Rightarrow> nat \<times> state" where
  "alloc f st = (length (heap st), st\<lparr>heap := heap st @ [f]\<rparr>)"

text \<open>Modelled from the spec: \<open>NewEnvironment\<close>, a fresh frame with no parent.\<close>

definition NewEnvironment :: "state \<Rightarrow> nat \<times> state" where
  "NewEnvironment st = alloc \<lparr>store = [], outer = None, permit = [], currentArgs = []\<rparr> st"

text \<open>
  Modelled from the spec: \<open>NewEnclosedEnvironment\<close>, a child frame that holds the
  call's arguments as its current arguments (section 4.D, Call).
\<close>

definition NewEnclosedEnvironment :: "nat \<Rightarrow> obj list \<Rightarrow> state \<Rightarrow> nat \<times> state" where
  "NewEnclosedEnvironment out args st =
    alloc \<lparr>store = [], outer = Some out, permit = [], currentArgs = args\<rparr> st"

text \<open>
  Modelled from the spec: \<open>NewTemporaryScope\<close>, a child frame with a permit set
  (section 4.D, For-each).
\<close>

definition NewTemporaryScope :: "nat \<Rightarrow> string list \<Rightarrow> state \<Rightarrow> nat \<times> state" where
  "NewTemporaryScope out names st =
    alloc \<lparr>store = [], outer = Some out, permit = names, currentArgs = []\<rparr> st"

text \<open>
  Modelled from the spec: \<open>Get\<close> walks from the frame along the parents and returns the
  first match. A frame's parent was allocated before the frame, so its address is smaller.
\<close>

function envGet :: "frame list \<Rightarrow> nat \<Rightarrow> string \<Rightarrow> obj option" where
  "envGet h e name =
    (if e < length h then
       (case map_of (store (h ! e)) name of
          Some (v, imm) \<Rightarrow> Some v
        | None \<Rightarrow>
            (case outer (h ! e) of
               Some p \<Rightarrow> if p < e then envGet h p name else None
             | None \<Rightarrow> None))
     else None)"
  by pat_completeness auto
termination
  by (relation "measure (\<lambda>(h, e, name). e)") auto

declare envGet.simps [simp del]

definition Get :: "nat \<Rightarrow> string \<Rightarrow> state \<Rightarrow> obj option" where
  "Get e name st = envGet (heap st) e name"

text \<open>\<open>m[k] = v\<close> on a map kept as a list of its entries.\<close>

fun assign :: "'k \<Rightarrow> 'v \<Rightarrow> ('k \<times> 'v) list \<Rightarrow> ('k \<times> 'v) list" where
  "assign name b [] = [(name, b)]"
| "assign name b ((n, b') # rest) =
    (if n = name then (n, b) # rest else (n, b') # assign name b rest)"

definition bindName :: "nat \<Rightarrow> string \<Rightarrow> obj \<times> bool \<Rightarrow> state \<Rightarrow> state" where
  "bindName e name b st =
    st\<lparr>heap := (heap st)[e := (heap st ! e)\<lparr>store := assign name b (store (heap st ! e))\<rparr>]\<rparr>"

text \<open>
  Modelled from the spec: \<open>Set\<close> hands the write to the parent when the frame has a
  permit set that lacks the name; otherwise it fails when the name is bound immutably in
  the frame, and else binds the name in the frame, assignable. Failing is fatal: a message
  and exit code 1 (section 7).
\<close>

function envSet :: "nat \<Rightarrow> string \<Rightarrow> obj \<Rightarrow> state \<Rightarrow> unit result" where
  "envSet e name val st =
    (if e < length (heap st) then
       (if permit (heap st ! e) \<noteq> [] \<and> name \<notin> set (permit (heap st ! e)) then
          (case outer (heap st ! e) of
             Some p \<Rightarrow> if p < e then envSet p name val st
                       else (Panic ''nil pointer dereference'', st)
           | None \<Rightarrow> (Panic ''nil pointer dereference'', st))
        else
          (case map_of (store (heap st ! e)) name of
             Some (v, True) \<Rightarrow>
               ExitConditionally 1 (printOut (name @ '' is immutable'' @ newline) st)
           | _ \<Rightarrow> (Ok (), bindName e name (val, False) st)))
     else (Panic ''nil pointer dereference'', st))"
  by pat_completeness auto
termination
  by (relation "measure (\<lambda>(e, name, val, st). e)") auto

declare envSet.simps [simp del]

text \<open>
  Modelled from the spec: \<open>SetLet\<close> delegates like \<open>Set\<close> and binds the name
  immutably.
\<close>

function envSetLet :: "nat \<Rightarrow> string \<Rightarrow> obj \<Rightarrow> state \<Rightarrow> unit result" where
  "envSetLet e name val st =
    (if e < length (heap st) then
       (if permit (heap st ! e) \<noteq> [] \<and> name \<notin> set (permit (heap st ! e)) then
          (case outer (heap st ! e) of
             Some p \<Rightarrow> if p < e then envSetLet p name val st
                       else (Panic ''nil pointer dereference'', st)
           | None \<Rightarrow> (Panic ''nil pointer dereference'', st))
        else (Ok (), bindName e name (val, True) st))
     else (Panic ''nil pointer dereference'', st))"
  by pat_completeness auto
termination
  by (relation "measure (\<lambda>(e, name, val, st). e)") auto

declare envSetLet.simps [simp del]

text \<open>Modelled from the spec: the field \<open>CurrentArgs\<close> of an environment.\<close>

definition envCurrentArgs :: "nat \<Rightarrow> state \<Rightarrow> obj list" where
  "envCurrentArgs e st = (if e < length (heap st) then currentArgs (heap st ! e) else [])"

text \<open>
  Modelled from the spec: the exported hash is the snapshot of the bindings of the
  module's top frame whose names do not start with an underscore (section 3.2).
\<close>

definition ExportedHash :: "nat \<Rightarrow> state \<Rightarrow> obj" where
  "ExportedHash e st =
    Hash (map (\<lambda>(n, v, imm). (HKString n, String n, v))
           (filter (\<lambda>(n, v, imm). take 1 n \<noteq> ''_'')
             (if e < length (heap st) then store (heap st ! e) else [])))"

text \<open>Modelled from the spec: which values are hashable, and their keys (section 3.1).\<close>

fun HashKey :: "obj \<Rightarrow> hashKey option" where
  "HashKey Null = Some HKNull"
| "HashKey (Boolean b) = Some (HKBoolean b)"
| "HashKey (Integer i) = Some (HKInteger i)"
| "HashKey (String s) = Some (HKString s)"
| "HashKey v = None"

text \<open>
  Modelled from the spec: the iterator protocol (section 4.H). \<open>iterItems v\<close> is the
  sequence of (element, index) that \<open>Reset\<close> followed by repeated \<open>Next\<close> yields, and
  \<open>None\<close> when \<open>v\<close> is not iterable. The cursor is taken as the loop's own.
\<close>

fun iterItems :: "obj \<Rightarrow> (obj \<times> obj) list option" where
  "iterItems (Array xs c) = Some (zip xs (map (\<lambda>i. Integer (of_nat i)) [0..<length xs]))"
| "iterItems (Hash ps) = Some (map (\<lambda>(k, key, v). (v, key)) ps)"
| "iterItems (String s) =
    Some (zip (map (\<lambda>r. String (encodeRune r)) (runes s))
              (map (\<lambda>i. Integer (of_nat i)) [0..<length (runes s)]))"
| "iterItems v = None"


section \<open>Operators\<close>

definition nativeBoolToBooleanObject :: "bool \<Rightarrow> obj" where
  "nativeBoolToBooleanObject input = Boolean input"

text \<open>\<open>x == 0.0\<close> on the bit pattern: both zeros compare equal to zero.\<close>

definition floatIsZero :: "float64 \<Rightarrow> bool" where
  "floatIsZero f = (f AND 0x7FFFFFFFFFFFFFFF = 0)"

fun objectToNativeBoolean :: "obj \<Rightarrow> bool" where
  "objectToNativeBoolean (ReturnValue (Boolean b)) = b"
| "objectToNativeBoolean (ReturnValue (String s)) = (s \<noteq> [])"
| "objectToNativeBoolean (ReturnValue Null) = False"
| "objectToNativeBoolean (ReturnValue (Integer i)) = (i \<noteq> 0)"
| "objectToNativeBoolean (ReturnValue (Float f)) = (\<not> floatIsZero f)"
| "objectToNativeBoolean (ReturnValue (Array xs c)) = (xs \<noteq> [])"
| "objectToNativeBoolean (ReturnValue (Hash ps)) = (ps \<noteq> [])"
| "objectToNativeBoolean (ReturnValue v) = True"
| "objectToNativeBoolean (Boolean b) = b"
| "objectToNativeBoolean (String s) = (s \<noteq> [])"
| "objectToNativeBoolean Null = False"
| "objectToNativeBoolean (Integer i) = (i \<noteq> 0)"
| "objectToNativeBoolean (Float f) = (\<not> floatIsZero f)"
| "objectToNativeBoolean (Array xs c) = (xs \<noteq> [])"
| "objectToNativeBoolean (Hash ps) = (ps \<noteq> [])"
| "objectToNativeBoolean v = True"

fun isTruthy :: "obj \<Rightarrow> bool" where
  "isTruthy (Boolean b) = b"
| "isTruthy Null = False"
| "isTruthy v = True"

fun evalBangOperatorExpression :: "obj \<Rightarrow> obj" where
  "evalBangOperatorExpression (Boolean b) = Boolean (\<not> b)"
| "evalBangOperatorExpression Null = Boolean True"
| "evalBangOperatorExpression v = Boolean False"

definition unknownOperator :: "string \<Rightarrow> obj \<Rightarrow> obj \<Rightarrow> obj res" where
  "unknownOperator operator left right =
    (case (typeText left, typeText right) of
       (Ok l, Ok r) \<Rightarrow> Ok (NewError (''unknown operator: '' @ l @ '' '' @ operator @ '' '' @ r))
     | _ \<Rightarrow> Panic ''nil pointer dereference'')"

fun evalMinusPrefixOperatorExpression :: "obj \<Rightarrow> obj res" where
  "evalMinusPrefixOperatorExpression (Integer v) = Ok (Integer (- v))"
| "evalMinusPrefixOperatorExpression (Float v) = Ok (Float (v XOR 0x8000000000000000))"
| "evalMinusPrefixOperatorExpression right =
    (case typeText right of Ok t \<Rightarrow> Ok (NewError (''unknown operator: -'' @ t))
     | _ \<Rightarrow> Panic ''nil pointer dereference'')"

fun evalNotPrefixOperatorExpression :: "obj \<Rightarrow> obj res" where
  "evalNotPrefixOperatorExpression (Integer v) = Ok (Integer (NOT v))"
| "evalNotPrefixOperatorExpression right =
    (case typeText right of Ok t \<Rightarrow> Ok (NewError (''expected integer, got '' @ t))
     | _ \<Rightarrow> Panic ''nil pointer dereference'')"

definition evalPrefixExpression :: "string \<Rightarrow> obj \<Rightarrow> obj res" where
  "evalPrefixExpression operator right =
    (if operator = ''!'' then Ok (evalBangOperatorExpression right)
     else if operator = ''-'' then evalMinusPrefixOperatorExpression right
     else if operator = ''~'' then evalNotPrefixOperatorExpression right
     else (case typeText right of
             Ok t \<Rightarrow> Ok (NewError (''unknown operator: '' @ operator @ t))
           | _ \<Rightarrow> Panic ''nil pointer dereference''))"

text \<open>
  Go's \<open>/\<close> and \<open>%\<close> on \<open>int64\<close> truncate towards zero and wrap on overflow; a zero
  divisor is a run-time panic, which the callers below have to account for.
\<close>

definition go_div :: "int64 \<Rightarrow> int64 \<Rightarrow> int64" where
  "go_div a b = word_of_int (sint a sdiv sint b)"

definition go_mod :: "int64 \<Rightarrow> int64 \<Rightarrow> int64" where
  "go_mod a b = word_of_int (sint a smod sint b)"

text \<open>
  The range case computes \<open>len := int(rightVal-leftVal) + 1\<close> in 64 bits and calls
  \<open>make([]OBJ, len)\<close>, which panics on a negative length; the loop then stores
  \<open>leftVal\<close>, \<open>leftVal + 1\<close>, ... (memory is taken to be unbounded).
\<close>

definition rangeArray :: "int64 \<Rightarrow> int64 \<Rightarrow> obj res" where
  "rangeArray leftVal rightVal =
    (let len = rightVal - leftVal + 1 in
     if len <s 0 then Panic ''makeslice: len out of range''
     else Ok (Array (map (\<lambda>i. Integer (leftVal + of_nat i)) [0..<unat len]) False))"

definition evalIntegerInfixExpression :: "world \<Rightarrow> string \<Rightarrow> obj \<Rightarrow> obj \<Rightarrow> obj res" where
  "evalIntegerInfixExpression w operator left right =
    (case (left, right) of
       (Integer leftVal, Integer rightVal) \<Rightarrow>
         if operator = ''+'' then Ok (Integer (leftVal + rightVal))
         else if operator = ''+='' then Ok (Integer (leftVal + rightVal))
         else if operator = ''%'' then
           (if rightVal = 0 then Panic ''integer divide by zero''
            else Ok (Integer (go_mod leftVal rightVal)))
         else if operator = ''**'' then Ok (Integer (intPow w leftVal rightVal))
         else if operator = ''-'' then Ok (Integer (leftVal - rightVal))
         else if operator = ''-='' then Ok (Integer (leftVal - rightVal))
         else if operator = ''*'' then Ok (Integer (leftVal * rightVal))
         else if operator = ''*='' then Ok (Integer (leftVal * rightVal))
         else if operator = ''/'' then
           (if rightVal = 0 then Panic ''integer divide by zero''
            else Ok (Integer (go_div leftVal rightVal)))
         else if operator = ''/='' then
           (if rightVal = 0 then Panic ''integer divide by zero''
            else Ok (Integer (go_div leftVal rightVal)))
         else if operator = ''<'' then Ok (nativeBoolToBooleanObject (leftVal <s rightVal))
         else if operator = ''<='' then Ok (nativeBoolToBooleanObject (leftVal \<le>s rightVal))
         else if operator = ''>'' then Ok (nativeBoolToBooleanObject (rightVal <s leftVal))
         else if operator = ''>='' then Ok (nativeBoolToBooleanObject (rightVal \<le>s leftVal))
         else if operator = ''=='' then Ok (nativeBoolToBooleanObject (leftVal = rightVal))
         else if operator = ''!='' then Ok (nativeBoolToBooleanObject (leftVal \<noteq> rightVal))
         else if operator = ''|'' then Ok (Integer (leftVal OR rightVal))
         else if operator = ''^'' then Ok (Integer (leftVal XOR rightVal))
         else if operator = ''&'' then Ok (Integer (leftVal AND rightVal))
         else if operator = ''<<'' then Ok (Integer (push_bit (unat rightVal) leftVal))
         else if operator = ''>>'' then Ok (Integer (signed_drop_bit (unat rightVal) leftVal))
         else if operator = ''..'' then rangeArray leftVal rightVal
         else unknownOperator operator left right
     | _ \<Rightarrow> Panic ''interface conversion'')"

definition evalStringInfixExpression :: "string \<Rightarrow> obj \<Rightarrow> obj \<Rightarrow> obj res" where
  "evalStringInfixExpression operator left right =
    (case (left, right) of
       (String l, String r) \<Rightarrow>
         if operator = ''=='' then Ok (nativeBoolToBooleanObject (l = r))
         else if operator = ''!='' then Ok (nativeBoolToBooleanObject (l \<noteq> r))
         else if operator = ''>='' then Ok (nativeBoolToBooleanObject (\<not> strLess l r))
         else if operator = ''>'' then Ok (nativeBoolToBooleanObject (strLess r l))
         else if operator = ''<='' then Ok (nativeBoolToBooleanObject (\<not> strLess r l))
         else if operator = ''<'' then Ok (nativeBoolToBooleanObject (strLess l r))
         else if operator = ''+'' then Ok (String (l @ r))
         else if operator = ''+='' then Ok (String (l @ r))
         else unknownOperator operator left right
     | _ \<Rightarrow> Panic ''interface conversion'')"

definition evalBooleanInfixExpression :: "world \<Rightarrow> string \<Rightarrow> obj \<Rightarrow> obj \<Rightarrow> obj res" where
  "evalBooleanInfixExpression w operator left right =
    (let l = String (Inspect w left); r = String (Inspect w right) in
     if operator = ''<'' then evalStringInfixExpression operator l r
     else if operator = ''<='' then evalStringInfixExpression operator l r
     else if operator = ''>'' then evalStringInfixExpression operator l r
     else if operator = ''>='' then evalStringInfixExpression operator l r
     else unknownOperator operator left right)"

text \<open>
  \<open>left == right\<close> on two interface values compares the objects' addresses. Values of
  different types are different objects; Null and the Booleans are singletons; for two
  values of one reference type the answer is \<open>identical\<close> of the world.
\<close>

definition sameObject :: "world \<Rightarrow> obj \<Rightarrow> obj \<Rightarrow> bool" where
  "sameObject w left right =
    (case (left, right) of
       (Nil, Nil) \<Rightarrow> True
     | (Null, Null) \<Rightarrow> True
     | (Boolean a, Boolean b) \<Rightarrow> a = b
     | _ \<Rightarrow> Type left = Type right \<and> identical w left right)"

definition evalInfixExpression :: "world \<Rightarrow> string \<Rightarrow> obj \<Rightarrow> obj \<Rightarrow> obj res" where
  "evalInfixExpression w operator left right =
    (case Type left of
       None \<Rightarrow> Panic ''nil pointer dereference''
     | Some lt \<Rightarrow>
         if lt = INTEGER_OBJ \<and> Type right = None then Panic ''nil pointer dereference''
         else if lt = INTEGER_OBJ \<and> Type right = Some INTEGER_OBJ
           then evalIntegerInfixExpression w operator left right
         else if lt = FLOAT_OBJ \<and> Type right = None then Panic ''nil pointer dereference''
         else if lt = FLOAT_OBJ \<and> Type right = Some FLOAT_OBJ
           then Ok (floatInfix w operator left right)
         else if lt = FLOAT_OBJ \<and> Type right = Some INTEGER_OBJ
           then Ok (floatInfix w operator left right)
         else if lt = INTEGER_OBJ \<and> Type right = Some FLOAT_OBJ
           then Ok (floatInfix w operator left right)
         else if lt = STRING_OBJ \<and> Type right = None then Panic ''nil pointer dereference''
         else if lt = STRING_OBJ \<and> Type right = Some STRING_OBJ
           then evalStringInfixExpression operator left right
         else if operator = ''&&''
           then Ok (nativeBoolToBooleanObject
                      (objectToNativeBoolean left \<and> objectToNativeBoolean right))
         else if operator = ''||''
           then Ok (nativeBoolToBooleanObject
                      (objectToNativeBoolean left \<or> objectToNativeBoolean right))
         else if operator = ''=='' then Ok (nativeBoolToBooleanObject (sameObject w left right))
         else if operator = ''!=''
           then Ok (nativeBoolToBooleanObject (\<not> sameObject w left right))
         else
           (case Type right of
              None \<Rightarrow> Panic ''nil pointer dereference''
            | Some rt \<Rightarrow>
                if lt = BOOLEAN_OBJ \<and> rt = BOOLEAN_OBJ
                  then evalBooleanInfixExpression w operator left right
                else if lt \<noteq> rt
                  then Ok (NewError (''type mismatch: '' @ typeString lt @ '' '' @ operator
                                      @ '' '' @ typeString rt))
                else Ok (NewError (''unknown operator: '' @ typeString lt @ '' '' @ operator
                                    @ '' '' @ typeString rt))))"

section \<open>The built-in functions of stdlib\_unscoped.go\<close>

definition backslash :: char where
  "backslash = CHR 0x5C"

definition dquote :: char where
  "dquote = CHR 0x22"

fun printLoop :: "world \<Rightarrow> obj list \<Rightarrow> state \<Rightarrow> obj result" where
  "printLoop w [] st = (Ok Null, printOut newline st)"
| "printLoop w (arg # args) st =
    (if arg = Nil then (Panic ''nil pointer dereference'', st)
     else if Type arg = Some STRING_OBJ \<and> backslash \<in> set (Inspect w arg) then
       (case Unquote w ([dquote] @ Inspect w arg @ [dquote]) of
          None \<Rightarrow>
            (Ok Null, printOut ('' '' @ newline) (printOut (Inspect w arg @ '' '') st))
        | Some s \<Rightarrow> (Ok Null, printOut (s @ '' '' @ newline) st))
     else printLoop w args (printOut (Inspect w arg @ '' '') st))"

definition printFn :: "world \<Rightarrow> obj list \<Rightarrow> state \<Rightarrow> obj result" where
  "printFn w args st = printLoop w args st"

text \<open>\<open>t.Pairs[k.HashKey()].Value\<close> for a String key \<open>k\<close>: nil when the key is absent.\<close>

definition pairValue :: "(hashKey \<times> obj \<times> obj) list \<Rightarrow> string \<Rightarrow> obj" where
  "pairValue ps k = (case map_of ps (HKString k) of Some (key, v) \<Rightarrow> v | None \<Rightarrow> Nil)"

definition errorFn :: "world \<Rightarrow> obj list \<Rightarrow> obj" where
  "errorFn w args =
    (if length args \<noteq> 1
       then NewError (''wrong number of arguments. got='' @ showNat (length args) @ '', want=1'')
     else
       (case hd args of
          String v \<Rightarrow> Error v None [] True
        | Hash ps \<Rightarrow>
            (let msg = pairValue ps ''message'';
                 code = pairValue ps ''code'';
                 data = pairValue ps ''data''
             in
               (case msg of
                  Nil \<Rightarrow>
                    (case code of
                       Nil \<Rightarrow> Error [] None (if data = Nil then [] else JSON w data) True
                     | Integer c \<Rightarrow>
                         Error [] (Some c) (if data = Nil then [] else JSON w data) True
                     | _ \<Rightarrow> NewError ''error.code should be integer!'')
                | String m \<Rightarrow>
                    (case code of
                       Nil \<Rightarrow> Error m None (if data = Nil then [] else JSON w data) True
                     | Integer c \<Rightarrow>
                         Error m (Some c) (if data = Nil then [] else JSON w data) True
                     | _ \<Rightarrow> NewError ''error.code should be integer!'')
                | _ \<Rightarrow> NewError ''error.message should be string!''))
        | _ \<Rightarrow> NewError ''error() expected a string or hash!''))"


definition panicFn :: "obj list \<Rightarrow> state \<Rightarrow> obj result" where
  "panicFn args st =
    (case args of
       [] \<Rightarrow> (Panic ''index out of range'', st)
     | a # rest \<Rightarrow>
         (case a of
            Error message code data builtinCall \<Rightarrow>
              ExitConditionally (case code of None \<Rightarrow> 1 | Some c \<Rightarrow> c)
                (printOut (message @ newline) st)
          | _ \<Rightarrow> (Ok (NewError ''panic expected an error!''), st)))"

text \<open>
  The registry \<open>builtins\<close>: the three functions above, and whatever else the world
  registers (\<open>math.abs\<close>, \<open>fs.glob\<close>, ...), applied through \<open>nativeFn\<close>.
\<close>

definition isBuiltin :: "world \<Rightarrow> string \<Rightarrow> bool" where
  "isBuiltin w name =
    (name = ''print'' \<or> name = ''error'' \<or> name = ''panic'' \<or> otherBuiltin w name)"

definition applyBuiltin :: "world \<Rightarrow> string \<Rightarrow> nat \<Rightarrow> obj list \<Rightarrow> state \<Rightarrow> obj result" where
  "applyBuiltin w name env args st =
    (if name = ''print'' then printFn w args st
     else if name = ''error'' then (Ok (errorFn w args), st)
     else if name = ''panic'' then panicFn args st
     else nativeFn w name env args st)"

definition evalIdentifier :: "world \<Rightarrow> string \<Rightarrow> nat \<Rightarrow> state \<Rightarrow> obj result" where
  "evalIdentifier w name env st =
    (case Get env name st of
       Some val \<Rightarrow> (Ok val, st)
     | None \<Rightarrow>
         if isBuiltin w name then (Ok (Builtin name), st)
         else ExitConditionally 1 (printOut (''identifier not found: '' @ name @ newline) st))"

section \<open>String interpolation\<close>

text \<open>
  \<open>Interpolate\<close> replaces every match of the regular expression
  \<^verbatim>\<open>(?s)(\\)?(\{\{)(.*?)(\}\})\<close>, leftmost first and without overlap. A match starts
  at a backslash followed by two opening braces, or at two opening braces, and ends with
  the first two closing braces after them. \<open>segments\<close> cuts the string into the matches
  and the bytes between them: \<open>Escaped m\<close> is a match that starts with the backslash
  (\<open>m\<close> is the match without it), \<open>Fragment v\<close> one that does not (\<open>v\<close> is the text
  between the braces).
\<close>

datatype segment = Lit char | Escaped string | Fragment string

fun findClose :: "string \<Rightarrow> (string \<times> string) option" where
  "findClose [] = None"
| "findClose [a] = None"
| "findClose (a # b # cs) =
    (if a = CHR ''}'' \<and> b = CHR ''}'' then Some ([], cs)
     else map_option (\<lambda>(inside, rest). (a # inside, rest)) (findClose (b # cs)))"

definition matchAt :: "string \<Rightarrow> (segment \<times> string) option" where
  "matchAt s =
    (if take 3 s = [backslash, CHR ''{'', CHR ''{''] \<and> findClose (drop 3 s) \<noteq> None then
       map_option (\<lambda>(inside, rest). (Escaped (''{{'' @ inside @ ''}}''), rest))
         (findClose (drop 3 s))
     else if take 2 s = ''{{'' then
       map_option (\<lambda>(inside, rest). (Fragment inside, rest)) (findClose (drop 2 s))
     else None)"

function segments :: "string \<Rightarrow> segment list" where
  "segments [] = []"
| "segments (c # cs) =
    (case matchAt (c # cs) of
       Some (seg, rest) \<Rightarrow> seg # segments rest
     | None \<Rightarrow> Lit c # segments cs)"
  by pat_completeness auto
termination
proof -
  have close: "length rest < length s" if "findClose s = Some (inside, rest)"
    for s inside rest
    using that
  proof (induction s arbitrary: inside rule: findClose.induct)
    case (3 a b cs)
    then show ?case by (auto split: if_splits)
  qed simp_all
  have shorter: "length rest < length s" if "matchAt s = Some (seg, rest)" for s seg rest
    using that by (auto simp: matchAt_def split: if_splits dest!: close)
  show ?thesis
    by (relation "measure length") (auto dest: shorter)
qed

fun replaceSegment :: "world \<Rightarrow> evalfn \<Rightarrow> segment \<Rightarrow> nat \<Rightarrow> state \<Rightarrow> string result" where
  "replaceSegment w ev (Lit c) env st = (Ok [c], st)"
| "replaceSegment w ev (Escaped m) env st = (Ok m, st)"
| "replaceSegment w ev (Fragment varName) env st =
    (case Get env varName st of
       Some v \<Rightarrow>
         if v = Nil then (Panic ''nil pointer dereference'', st) else (Ok (Inspect w v), st)
     | None \<Rightarrow>
         bind (ev (Program (fst (parse w varName))) env st)
           (\<lambda>evaluated st'.
              if evaluated \<noteq> Nil then (Ok (Inspect w evaluated), st') else (Ok [], st')))"

fun interpolateSegments ::
    "world \<Rightarrow> evalfn \<Rightarrow> segment list \<Rightarrow> nat \<Rightarrow> state \<Rightarrow> string result" where
  "interpolateSegments w ev [] env st = (Ok [], st)"
| "interpolateSegments w ev (seg # rest) env st =
    bind (replaceSegment w ev seg env st)
      (\<lambda>s st'. bind (interpolateSegments w ev rest env st') (\<lambda>r st''. (Ok (s @ r), st'')))"

definition Interpolate :: "world \<Rightarrow> evalfn \<Rightarrow> string \<Rightarrow> nat \<Rightarrow> state \<Rightarrow> string result" where
  "Interpolate w ev str env st = interpolateSegments w ev (segments str) env st"

section \<open>Index expressions and method resolution\<close>

text \<open>
  \<open>objectGetMethod\<close>: a native method of the value, else the binding of
  \<open><type>.<name>\<close> or \<open>object.<name>\<close> in the environment; a Function found there is
  copied with a fresh enclosed environment that binds \<open>self\<close>. Modelled from the spec:
  every type tag is in \<open>SystemTypesMap\<close>, so the first prefix is the lower-cased tag
  (section 4.E).
\<close>

fun tryAttempts :: "string list \<Rightarrow> string \<Rightarrow> obj \<Rightarrow> nat \<Rightarrow> state \<Rightarrow> obj option \<times> state" where
  "tryAttempts [] k o' env st = (None, st)"
| "tryAttempts (prefix # rest) k o' env st =
    (case Get env (prefix @ ''.'' @ k) st of
       Some val \<Rightarrow>
         (case val of
            Function ps ds body fenv \<Rightarrow>
              (let (e, st1) = NewEnclosedEnvironment fenv [] st
               in (Some (Function ps ds body e), snd (envSet e ''self'' o' st1)))
          | _ \<Rightarrow> (Some val, st))
     | None \<Rightarrow> tryAttempts rest k o' env st)"

definition objectGetMethod :: "world \<Rightarrow> obj \<Rightarrow> obj \<Rightarrow> nat \<Rightarrow> state \<Rightarrow> obj option \<times> state" where
  "objectGetMethod w o' key env st =
    (case key of
       String k \<Rightarrow>
         (case GetMethod w o' k of
            Some native \<Rightarrow> (Some (Builtin native), st)
          | None \<Rightarrow>
              tryAttempts
                [toLower (case Type o' of Some t \<Rightarrow> typeString t | None \<Rightarrow> []), ''object'']
                k o' env st)
     | _ \<Rightarrow> (None, st))"

definition methodOr :: "world \<Rightarrow> obj \<Rightarrow> obj \<Rightarrow> nat \<Rightarrow> obj \<Rightarrow> state \<Rightarrow> obj result" where
  "methodOr w o' key env otherwise st =
    (case objectGetMethod w o' key env st of
       (Some fn, st') \<Rightarrow> (Ok fn, st')
     | (None, st') \<Rightarrow> (Ok otherwise, st'))"

definition evalArrayIndexExpression :: "world \<Rightarrow> obj \<Rightarrow> obj \<Rightarrow> nat \<Rightarrow> state \<Rightarrow> obj result" where
  "evalArrayIndexExpression w array index env st =
    (case array of
       Array elements c \<Rightarrow>
         (case index of
            Integer idx \<Rightarrow>
              if idx <s 0 \<or> (of_nat (length elements) - 1 :: int64) <s idx then (Ok Null, st)
              else if unat idx < length elements then (Ok (elements ! unat idx), st)
              else (Panic ''index out of range'', st)
          | _ \<Rightarrow> methodOr w array index env Null st)
     | _ \<Rightarrow> (Panic ''interface conversion'', st))"

definition evalHashIndexExpression :: "world \<Rightarrow> obj \<Rightarrow> obj \<Rightarrow> nat \<Rightarrow> state \<Rightarrow> obj result" where
  "evalHashIndexExpression w hash index env st =
    (case hash of
       Hash pairs \<Rightarrow>
         (case HashKey index of
            None \<Rightarrow>
              (case typeText index of
                 Ok t \<Rightarrow> (Ok (NewError (''unusable as hash key: '' @ t)), st)
               | _ \<Rightarrow> (Panic ''nil pointer dereference'', st))
          | Some key \<Rightarrow>
              (case map_of pairs key of
                 None \<Rightarrow> methodOr w hash index env Null st
               | Some (k, v) \<Rightarrow> (Ok v, st)))
     | _ \<Rightarrow> (Panic ''interface conversion'', st))"

text \<open>
  \<open>evalStringIndexExpression\<close> compares the index with the byte length \<open>len(str)\<close>
  and then indexes the runes \<open>[]rune(str)\<close>; an index that is not below the number of
  runes is a run-time panic.
\<close>

definition evalStringIndexExpression :: "world \<Rightarrow> obj \<Rightarrow> obj \<Rightarrow> nat \<Rightarrow> state \<Rightarrow> obj result" where
  "evalStringIndexExpression w input index env st =
    (case input of
       String str \<Rightarrow>
         (case index of
            Integer idx \<Rightarrow>
              if idx <s 0 \<or> (of_nat (length str) :: int64) <s idx then (Ok Null, st)
              else if unat idx < length (runes str)
                then (Ok (String (encodeRune (runes str ! unat idx))), st)
              else (Panic ''index out of range'', st)
          | _ \<Rightarrow> methodOr w input index env Null st)
     | _ \<Rightarrow> (Panic ''interface conversion'', st))"

definition evalModuleIndexExpression :: "world \<Rightarrow> obj \<Rightarrow> obj \<Rightarrow> nat \<Rightarrow> state \<Rightarrow> obj result" where
  "evalModuleIndexExpression w module' index env st =
    (case module' of
       Module name attrs \<Rightarrow> evalHashIndexExpression w attrs index env st
     | _ \<Rightarrow> (Panic ''interface conversion'', st))"

definition evalIndexExpression :: "world \<Rightarrow> obj \<Rightarrow> obj \<Rightarrow> nat \<Rightarrow> state \<Rightarrow> obj result" where
  "evalIndexExpression w left index env st =
    (case Type left of
       None \<Rightarrow> (Panic ''nil pointer dereference'', st)
     | Some t \<Rightarrow>
         if t = ARRAY_OBJ then evalArrayIndexExpression w left index env st
         else if t = HASH_OBJ then evalHashIndexExpression w left index env st
         else if t = STRING_OBJ then evalStringIndexExpression w left index env st
         else if t = MODULE_OBJ then evalModuleIndexExpression w left index env st
         else methodOr w left index env
                (NewError (''index operator not support:'' @ typeString t)) st)"

section \<open>The evaluator\<close>

text \<open>
  Each function below is the Go function of the same name; its calls of \<open>Eval\<close> go to
  the parameter \<open>ev\<close>, which \<open>Eval\<close> at the end of the section instantiates with itself
  on less fuel. \<open>Eval\<close> always runs with \<open>context.Background()\<close>, which is never
  cancelled, so the test of the context at the head of \<open>evalContext\<close> does nothing.
\<close>

fun evalProgramLoop :: "evalfn \<Rightarrow> node list \<Rightarrow> nat \<Rightarrow> obj \<Rightarrow> state \<Rightarrow> obj result" where
  "evalProgramLoop ev [] env result st = (Ok result, st)"
| "evalProgramLoop ev (statement # rest) env result st =
    bind (ev statement env st)
      (\<lambda>r st'. case r of
                  ReturnValue v \<Rightarrow> (Ok v, st')
                | _ \<Rightarrow> evalProgramLoop ev rest env r st')"

definition evalProgram :: "evalfn \<Rightarrow> node list \<Rightarrow> nat \<Rightarrow> state \<Rightarrow> obj result" where
  "evalProgram ev statements env st = evalProgramLoop ev statements env Nil st"

fun evalBlockLoop :: "evalfn \<Rightarrow> node list \<Rightarrow> nat \<Rightarrow> obj \<Rightarrow> state \<Rightarrow> obj result" where
  "evalBlockLoop ev [] env result st = (Ok result, st)"
| "evalBlockLoop ev (statement # rest) env result st =
    bind (ev statement env st)
      (\<lambda>r st'. if Type r = Some RETURN_VALUE_OBJ then (Ok r, st')
                else evalBlockLoop ev rest env r st')"

definition evalBlockStatement :: "evalfn \<Rightarrow> node list \<Rightarrow> nat \<Rightarrow> state \<Rightarrow> obj result" where
  "evalBlockStatement ev statements env st = evalBlockLoop ev statements env Nil st"

fun evalExpressionLoop :: "evalfn \<Rightarrow> node list \<Rightarrow> nat \<Rightarrow> obj list \<Rightarrow> state \<Rightarrow> obj list result"
  where
  "evalExpressionLoop ev [] env result st = (Ok result, st)"
| "evalExpressionLoop ev (e # rest) env result st =
    bind (ev e env st)
      (\<lambda>evaluated st'. if isError evaluated then (Ok [evaluated], st')
                        else evalExpressionLoop ev rest env (result @ [evaluated]) st')"

definition evalExpression :: "evalfn \<Rightarrow> node list \<Rightarrow> nat \<Rightarrow> state \<Rightarrow> obj list result" where
  "evalExpression ev exps env st = evalExpressionLoop ev exps env [] st"

definition evalPostfixExpression :: "nat \<Rightarrow> string \<Rightarrow> string \<Rightarrow> state \<Rightarrow> obj result" where
  "evalPostfixExpression env operator literal st =
    (if operator = ''++'' then
       (case Get env literal st of
          None \<Rightarrow> (Ok (NewError (literal @ '' is unknown'')), st)
        | Some val \<Rightarrow>
            (case val of
               Integer v \<Rightarrow>
                 bind (envSet env literal (Integer (v + 1)) st) (\<lambda>u st'. (Ok val, st'))
             | _ \<Rightarrow> (Ok (NewError (literal @ '' is not an int'')), st)))
     else if operator = ''--'' then
       (case Get env literal st of
          None \<Rightarrow> (Ok (NewError (literal @ '' is unknown'')), st)
        | Some val \<Rightarrow>
            (case val of
               Integer v \<Rightarrow>
                 bind (envSet env literal (Integer (v - 1)) st) (\<lambda>u st'. (Ok val, st'))
             | _ \<Rightarrow> (Ok (NewError (literal @ '' is not an int'')), st)))
     else (Ok (NewError (''unknown operator: '' @ operator)), st))"

definition evalIfExpression ::
    "evalfn \<Rightarrow> node \<Rightarrow> node \<Rightarrow> node option \<Rightarrow> nat \<Rightarrow> state \<Rightarrow> obj result" where
  "evalIfExpression ev condition consequence alternative env st =
    bind (ev condition env st)
      (\<lambda>c st'.
         if isError c then (Ok c, st')
         else if isTruthy c then ev consequence env st'
         else (case alternative of
                 Some alt \<Rightarrow> ev alt env st'
               | None \<Rightarrow> (Ok Null, st')))"

text \<open>The four augmented assignments share one body, up to the operator.\<close>

definition evalAugmented :: "world \<Rightarrow> string \<Rightarrow> string \<Rightarrow> obj \<Rightarrow> nat \<Rightarrow> state \<Rightarrow> obj result"
  where
  "evalAugmented w name operator evaluated env st =
    (case Get env name st of
       None \<Rightarrow> (Ok (NewError (name @ '' is unknown'')), st)
     | Some current \<Rightarrow>
         bind (pure (evalInfixExpression w operator current evaluated) st)
           (\<lambda>res st'.
              if isError res
                then (Ok res, printOut (''Error handling '' @ operator @ '' '' @ Inspect w res
                                          @ newline) st')
              else bind (envSet env name res st') (\<lambda>u st''. (Ok res, st''))))"

definition evalAssignStatement ::
    "world \<Rightarrow> evalfn \<Rightarrow> string \<Rightarrow> string \<Rightarrow> node \<Rightarrow> nat \<Rightarrow> state \<Rightarrow> obj result" where
  "evalAssignStatement w ev name operator val env st =
    bind (ev val env st)
      (\<lambda>evaluated st'.
         if isError evaluated then (Ok evaluated, st')
         else if operator = ''+='' \<or> operator = ''-='' \<or> operator = ''*='' \<or> operator = ''/=''
           then evalAugmented w name operator evaluated env st'
         else if operator = ''='' then
           (case Get env name st' of
              None \<Rightarrow>
                ExitConditionally 1
                  (printOut (''Setting unknown variable '' @ [CHR 0x27] @ name @ [CHR 0x27]
                              @ '' is an error!'' @ newline) st')
            | Some current \<Rightarrow>
                bind (envSet env name evaluated st') (\<lambda>u st''. (Ok evaluated, st'')))
         else (Ok evaluated, st'))"

text \<open>
  The loop of \<open>evalForLoopExpression\<close>, with the number of iterations bounded by the
  fuel \<open>k\<close>. The test of the body's result calls \<open>rt.Type()\<close> when \<open>isError(rt)\<close> is
  false, which panics on nil.
\<close>

primrec forLoop :: "nat \<Rightarrow> evalfn \<Rightarrow> node \<Rightarrow> node \<Rightarrow> nat \<Rightarrow> state \<Rightarrow> obj result" where
  "forLoop 0 ev condition consequence env st = (OutOfFuel, st)"
| "forLoop (Suc k) ev condition consequence env st =
    bind (ev condition env st)
      (\<lambda>c st1.
         if isError c then (Ok c, st1)
         else if isTruthy c then
           bind (ev consequence env st1)
             (\<lambda>rt st2.
                if rt = Nil then (Panic ''nil pointer dereference'', st2)
                else if \<not> isError rt
                        \<and> (Type rt = Some RETURN_VALUE_OBJ \<or> Type rt = Some ERROR_OBJ)
                  then (Ok rt, st2)
                else forLoop k ev condition consequence env st2)
         else (Ok (Boolean True), st1))"

definition evalForLoopExpression ::
    "nat \<Rightarrow> evalfn \<Rightarrow> node \<Rightarrow> node \<Rightarrow> nat \<Rightarrow> state \<Rightarrow> obj result" where
  "evalForLoopExpression k ev condition consequence env st =
    forLoop k ev condition consequence env st"

text \<open>
  The loop of \<open>evalForeachExpression\<close> over the items the iterator yields: bind the
  loop variables in the temporary scope, evaluate the body, test its result, go on.
\<close>

fun foreachLoop ::
    "evalfn \<Rightarrow> string \<Rightarrow> string \<Rightarrow> node \<Rightarrow> nat \<Rightarrow> (obj \<times> obj) list \<Rightarrow> state \<Rightarrow> obj result" where
  "foreachLoop ev ident index body child [] st = (Ok Null, st)"
| "foreachLoop ev ident index body child ((ret, idx) # rest) st =
    bind (envSet child ident ret st)
      (\<lambda>u st1.
         bind (if index \<noteq> [] then envSet child index idx st1 else (Ok (), st1))
           (\<lambda>u st2.
              bind (ev body child st2)
                (\<lambda>rt st3.
                   if rt = Nil then (Panic ''nil pointer dereference'', st3)
                   else if \<not> isError rt
                           \<and> (Type rt = Some RETURN_VALUE_OBJ \<or> Type rt = Some ERROR_OBJ)
                     then (Ok rt, st3)
                   else foreachLoop ev ident index body child rest st3)))"

definition evalForeachExpression ::
    "evalfn \<Rightarrow> string \<Rightarrow> string \<Rightarrow> node \<Rightarrow> node \<Rightarrow> nat \<Rightarrow> state \<Rightarrow> obj result" where
  "evalForeachExpression ev ident index val body env st =
    bind (ev val env st)
      (\<lambda>v st1.
         case iterItems v of
           None \<Rightarrow>
             (case typeText v of
                Ok t \<Rightarrow>
                  (Ok (NewError (t @ '' object doesn'' @ [CHR 0x27]
                                  @ ''t implement the Iterable interface'')), st1)
              | _ \<Rightarrow> (Panic ''nil pointer dereference'', st1))
         | Some items \<Rightarrow>
             (let (child, st2) =
                    NewTemporaryScope env (ident # (if index \<noteq> [] then [index] else [])) st1
              in foreachLoop ev ident index body child items st2))"

fun setDefaults :: "evalfn \<Rightarrow> (string \<times> node) list \<Rightarrow> nat \<Rightarrow> state \<Rightarrow> unit result" where
  "setDefaults ev [] env st = (Ok (), st)"
| "setDefaults ev ((key, val) # rest) env st =
    bind (ev val env st)
      (\<lambda>v st1. bind (envSet env key v st1) (\<lambda>u st2. setDefaults ev rest env st2))"

fun setParameters :: "string list \<Rightarrow> obj list \<Rightarrow> nat \<Rightarrow> state \<Rightarrow> unit result" where
  "setParameters [] args env st = (Ok (), st)"
| "setParameters (param # rest) [] env st = (Ok (), st)"
| "setParameters (param # rest) (arg # args) env st =
    bind (envSet env param arg st) (\<lambda>u st'. setParameters rest args env st')"

definition extendFunctionEnv ::
    "evalfn \<Rightarrow> string list \<Rightarrow> (string \<times> node) list \<Rightarrow> nat \<Rightarrow> obj list \<Rightarrow> state \<Rightarrow> nat result"
  where
  "extendFunctionEnv ev parameters defaults fenv args st =
    (let (env, st0) = NewEnclosedEnvironment fenv args st
     in bind (setDefaults ev defaults env st0)
          (\<lambda>u st1. bind (setParameters parameters args env st1) (\<lambda>u st2. (Ok env, st2))))"

fun upwrapReturnValue :: "obj \<Rightarrow> obj" where
  "upwrapReturnValue (ReturnValue v) = v"
| "upwrapReturnValue v = v"

definition ApplyFunction ::
    "world \<Rightarrow> evalfn \<Rightarrow> nat \<Rightarrow> obj \<Rightarrow> obj list \<Rightarrow> state \<Rightarrow> obj result" where
  "ApplyFunction w ev env fn args st =
    (case fn of
       Function parameters defaults body fenv \<Rightarrow>
         bind (extendFunctionEnv ev parameters defaults fenv args st)
           (\<lambda>extendEnv st1.
              bind (ev body extendEnv st1)
                (\<lambda>evaluated st2. (Ok (upwrapReturnValue evaluated), st2)))
     | Builtin name \<Rightarrow> applyBuiltin w name env args st
     | _ \<Rightarrow>
         (case typeText fn of
            Ok t \<Rightarrow> (Ok (NewError (''not a function: '' @ t)), st)
          | _ \<Rightarrow> (Panic ''nil pointer dereference'', st)))"

text \<open>
  What the call case of \<open>evalContext\<close> does with the result \<open>res\<close> of \<open>ApplyFunction\<close>:
  an Error that is not marked \<open>BuiltinCall\<close> is reported on standard error and the
  process exits with the Error's code, or 1 when it has none.
\<close>

definition callResult :: "world \<Rightarrow> node \<Rightarrow> obj \<Rightarrow> state \<Rightarrow> obj result" where
  "callResult w function res st =
    (case res of
       Error message code data builtinCall \<Rightarrow>
         if \<not> builtinCall then
           ExitConditionally (case code of None \<Rightarrow> 1 | Some c \<Rightarrow> c)
             (printErr (''Error calling '' @ [CHR 0x60] @ nodeString w function @ [CHR 0x60]
                          @ '' : '' @ Inspect w res @ newline) st)
         else (Ok res, st)
     | _ \<Rightarrow> (Ok res, st))"

text \<open>
  The check for current args: when the first argument is the array of a \<open>...\<close>
  literal, the caller's current arguments take its place.
\<close>

definition withCurrentArgs :: "nat \<Rightarrow> obj list \<Rightarrow> state \<Rightarrow> obj list" where
  "withCurrentArgs env args st =
    (case args of
       Array elements True # rest \<Rightarrow> envCurrentArgs env st @ rest
     | _ \<Rightarrow> args)"

definition evalCallExpression ::
    "world \<Rightarrow> evalfn \<Rightarrow> node \<Rightarrow> node list \<Rightarrow> nat \<Rightarrow> state \<Rightarrow> obj result" where
  "evalCallExpression w ev function arguments env st =
    bind (ev function env st)
      (\<lambda>fn st1.
         if isError fn then (Ok fn, st1)
         else
           bind (evalExpression ev arguments env st1)
             (\<lambda>args st2.
                bind (ApplyFunction w ev env fn (withCurrentArgs env args st2) st2)
                  (\<lambda>res st3. callResult w function res st3)))"

fun hashLiteralLoop ::
    "evalfn \<Rightarrow> (node \<times> node) list \<Rightarrow> nat \<Rightarrow> (hashKey \<times> obj \<times> obj) list \<Rightarrow> state \<Rightarrow> obj result"
  where
  "hashLiteralLoop ev [] env pairs st = (Ok (Hash pairs), st)"
| "hashLiteralLoop ev ((keyNode, valueNode) # rest) env pairs st =
    bind (ev keyNode env st)
      (\<lambda>key st1.
         if isError key then (Ok key, st1)
         else
           (case HashKey key of
              None \<Rightarrow>
                (case typeText key of
                   Ok t \<Rightarrow> (Ok (NewError (''unusable as hash key: '' @ t)), st1)
                 | _ \<Rightarrow> (Panic ''nil pointer dereference'', st1))
            | Some hashed \<Rightarrow>
                bind (ev valueNode env st1)
                  (\<lambda>val st2.
                     if isError val then (Ok val, st2)
                     else hashLiteralLoop ev rest env (assign hashed (key, val) pairs) st2)))"

definition evalHashLiteral :: "evalfn \<Rightarrow> (node \<times> node) list \<Rightarrow> nat \<Rightarrow> state \<Rightarrow> obj result" where
  "evalHashLiteral ev pairs env st = hashLiteralLoop ev pairs env [] st"

definition evalSpread :: "string \<Rightarrow> nat \<Rightarrow> state \<Rightarrow> obj result" where
  "evalSpread a env st =
    (case Get env a st of
       None \<Rightarrow> (Ok (NewError (a @ '' is unknown'')), st)
     | Some val \<Rightarrow>
         (case val of
            Array elements c \<Rightarrow> (Ok (Array elements True), st)
          | _ \<Rightarrow>
              (case typeText val of
                 Ok t \<Rightarrow> (Ok (NewError (''spread expected an array, got '' @ t)), st)
               | _ \<Rightarrow> (Panic ''nil pointer dereference'', st))))"

section \<open>Modules\<close>

definition fileExists :: "state \<Rightarrow> string \<Rightarrow> bool" where
  "fileExists st path = (map_of (files st) path \<noteq> None)"

fun findIn :: "world \<Rightarrow> state \<Rightarrow> string list \<Rightarrow> string \<Rightarrow> string" where
  "findIn w st [] basename = []"
| "findIn w st (p # ps) basename =
    (if fileExists st (joinPath w p basename) then joinPath w p basename
     else findIn w st ps basename)"

definition FindModule :: "world \<Rightarrow> state \<Rightarrow> string \<Rightarrow> string" where
  "FindModule w st name = findIn w st (searchPaths w) (name @ ''.keai'')"

definition quoted :: "string \<Rightarrow> string" where
  "quoted s = [CHR 0x27] @ s @ [CHR 0x27]"

text \<open>
  \<open>EvalModule\<close>: find the file, read it, parse it, evaluate the program in a fresh
  environment and return the environment's exported hash. The entry added to
  \<open>evaluatedModules\<close> records that the module's source is handed to \<open>Eval\<close>.
\<close>

definition EvalModule :: "world \<Rightarrow> evalfn \<Rightarrow> string \<Rightarrow> state \<Rightarrow> obj result" where
  "EvalModule w ev name st =
    (let filename = FindModule w st name in
     if filename = [] then (Ok (NewError (''ImportError: no module named '' @ quoted name)), st)
     else
       (case map_of (files st) filename of
          Some (Some b) \<Rightarrow>
            (let (statements, errors) = parse w b in
             if errors \<noteq> [] then (Ok (NewError (''ParseError: '' @ showStrings errors)), st)
             else
               (let (env, st1) = NewEnvironment st in
                bind (ev (Program statements) env
                        (st1\<lparr>evaluatedModules := evaluatedModules st1 @ [name]\<rparr>))
                  (\<lambda>r st2. (Ok (ExportedHash env st2), st2))))
        | _ \<Rightarrow>
            (Ok (NewError (''IOError: error reading module '' @ quoted name @ '': '')), st)))"

text \<open>
  Modelled from the spec: \<open>String()\<close> of the name of an import expression that is a
  string literal is the literal's text (sections 3.2 and 4.F: the cache key is the
  literal path as it appears in the source).
\<close>

definition importKey :: "world \<Rightarrow> node \<Rightarrow> string" where
  "importKey w name = (case name of StringLiteral p \<Rightarrow> p | _ \<Rightarrow> nodeString w name)"

definition evalImportExpression :: "world \<Rightarrow> evalfn \<Rightarrow> node \<Rightarrow> nat \<Rightarrow> state \<Rightarrow> obj result" where
  "evalImportExpression w ev ieName env st =
    (case map_of (importCache st) (importKey w ieName) of
       Some cached \<Rightarrow> (Ok cached, st)
     | None \<Rightarrow>
         bind (ev ieName env st)
           (\<lambda>name st1.
              if isError name then (Ok name, st1)
              else
                (case name of
                   String s \<Rightarrow>
                     bind (EvalModule w ev s st1)
                       (\<lambda>attrs st2.
                          if isError attrs then (Ok attrs, st2)
                          else (Ok (Module s attrs),
                                st2\<lparr>importCache :=
                                      assign (importKey w ieName) (Module s attrs)
                                        (importCache st2)\<rparr>))
                 | _ \<Rightarrow>
                     (Ok (NewError (''ImportError: invalid import path ''
                                     @ quoted (Inspect w name))), st1))))"

section \<open>\<open>evalContext\<close> and \<open>Eval\<close>\<close>

text \<open>The infix case of \<open>evalContext\<close>.\<close>

definition evalInfixCase ::
    "world \<Rightarrow> evalfn \<Rightarrow> node \<Rightarrow> string \<Rightarrow> node \<Rightarrow> nat \<Rightarrow> state \<Rightarrow> obj result" where
  "evalInfixCase w ev left operator right env st =
    bind (ev left env st)
      (\<lambda>l st1.
         if isError l then (Ok l, st1)
         else
           bind (ev right env st1)
             (\<lambda>r st2.
                if isError r then (Ok r, st2)
                else
                  bind (pure (evalInfixExpression w operator l r) st2)
                    (\<lambda>res st3.
                       if isError res
                         then ExitConditionally 1
                                (printOut (''Error: '' @ Inspect w res @ newline) st3)
                       else (Ok res, st3))))"

definition evalContext :: "world \<Rightarrow> nat \<Rightarrow> evalfn \<Rightarrow> node \<Rightarrow> nat \<Rightarrow> state \<Rightarrow> obj result" where
  "evalContext w k ev node env st =
    (case node of
       Program statements \<Rightarrow> evalProgram ev statements env st
     | ExpressionStatement e \<Rightarrow> ev e env st
     | IntegerLiteral v \<Rightarrow> (Ok (Integer v), st)
     | FloatLiteral v \<Rightarrow> (Ok (Float v), st)
     | BooleanLiteral b \<Rightarrow> (Ok (nativeBoolToBooleanObject b), st)
     | NullLiteral \<Rightarrow> (Ok Null, st)
     | PrefixExpression operator right \<Rightarrow>
         bind (ev right env st)
           (\<lambda>r st'. if isError r then (Ok r, st') else pure (evalPrefixExpression operator r) st')
     | PostfixExpression literal operator \<Rightarrow> evalPostfixExpression env operator literal st
     | InfixExpression left operator right \<Rightarrow> evalInfixCase w ev left operator right env st
     | BlockStatement statements \<Rightarrow> evalBlockStatement ev statements env st
     | IfExpression condition consequence alternative \<Rightarrow>
         evalIfExpression ev condition consequence alternative env st
     | ImportExpression name \<Rightarrow> evalImportExpression w ev name env st
     | ForLoopExpression condition consequence \<Rightarrow>
         evalForLoopExpression k ev condition consequence env st
     | ForeachStatement ident index val body \<Rightarrow>
         evalForeachExpression ev ident index val body env st
     | ReturnStatement returnValue \<Rightarrow>
         bind (ev returnValue env st) (\<lambda>val st'. (Ok (ReturnValue val), st'))
     | MutableStatement name val \<Rightarrow>
         bind (ev val env st) (\<lambda>v st1. bind (envSet env name v st1) (\<lambda>u st2. (Ok v, st2)))
     | LetStatement name val \<Rightarrow>
         bind (ev val env st) (\<lambda>v st1. bind (envSetLet env name v st1) (\<lambda>u st2. (Ok v, st2)))
     | Identifier name \<Rightarrow> evalIdentifier w name env st
     | FunctionLiteral parameters defaults body \<Rightarrow>
         (Ok (Function parameters defaults body env), st)
     | CallExpression function arguments \<Rightarrow> evalCallExpression w ev function arguments env st
     | ArrayLiteral elements \<Rightarrow>
         bind (evalExpression ev elements env st)
           (\<lambda>els st'.
              if length els = 1 \<and> isError (hd els) then (Ok (hd els), st')
              else (Ok (Array els False), st'))
     | StringLiteral val \<Rightarrow>
         bind (Interpolate w ev val env st) (\<lambda>s st'. (Ok (String s), st'))
     | SpreadLiteral a \<Rightarrow> evalSpread a env st
     | CurrentArgsLiteral \<Rightarrow> (Ok (Array (envCurrentArgs env st) True), st)
     | IndexExpression left index \<Rightarrow>
         bind (ev left env st)
           (\<lambda>l st1.
              if isError l then (Ok l, st1)
              else
                bind (ev index env st1)
                  (\<lambda>i st2. if isError i then (Ok i, st2) else evalIndexExpression w l i env st2))
     | AssignStatement name operator val \<Rightarrow> evalAssignStatement w ev name operator val env st
     | HashLiteral pairs \<Rightarrow> evalHashLiteral ev pairs env st)"

text \<open>
  \<open>Eval\<close> with fuel: every call of \<open>Eval\<close> from inside the evaluator runs on one unit
  less, and a \<open>for\<close> loop makes at most as many iterations as it has fuel.
\<close>

primrec Eval :: "world \<Rightarrow> nat \<Rightarrow> node \<Rightarrow> nat \<Rightarrow> state \<Rightarrow> obj result" where
  "Eval w 0 = (\<lambda>node env st. (OutOfFuel, st))"
| "Eval w (Suc k) = evalContext w k (Eval w k)"

text \<open>
  A process that has just created its top-level environment (address 0), as \<open>Execute\<close>
  in keai.go does, with the given files on disk.
\<close>

definition initialState :: "(string \<times> string option) list \<Rightarrow> state" where
  "initialState fs =
    \<lparr>heap = [\<lparr>store = [], outer = None, permit = [], currentArgs = []\<rparr>],
     stdout = [], stderr = [], importCache = [], files = fs, evaluatedModules = []\<rparr>"

section \<open>An example world\<close>

text \<open>
  The examples below run in this world. Its \<open>Inspect\<close> follows section 4.A of the
  specification (a String inspects to its text, an Array to \<open>[a, b, c]\<close>, Null to
  \<open>null\<close>); its parser knows three source texts: the identifier \<open>y\<close>, the sum
  \<open>1+2\<close> and the empty text, and reports an error on any other. It registers no
  built-in beyond \<open>print\<close>, \<open>error\<close> and \<open>panic\<close>, and searches modules in \<open>/lib\<close>.
\<close>

definition showInt :: "int \<Rightarrow> string" where
  "showInt i = (if i < 0 then CHR ''-'' # showNat (nat (- i)) else showNat (nat i))"

fun joinComma :: "string list \<Rightarrow> string" where
  "joinComma [] = []"
| "joinComma [x] = x"
| "joinComma (x # y # ys) = x @ '', '' @ joinComma (y # ys)"

fun inspectExample :: "obj \<Rightarrow> string" where
  "inspectExample Null = ''null''"
| "inspectExample (Boolean b) = (if b then ''true'' else ''false'')"
| "inspectExample (Integer i) = showInt (sint i)"
| "inspectExample (String s) = s"
| "inspectExample (Array xs c) = ''['' @ joinComma (map inspectExample xs) @ '']''"
| "inspectExample (Error m c d b) = ''ERROR: '' @ m"
| "inspectExample v = []"

definition parseExample :: "string \<Rightarrow> node list \<times> string list" where
  "parseExample src =
    (if src = ''y'' then ([ExpressionStatement (Identifier ''y'')], [])
     else if src = ''1+2'' then
       ([ExpressionStatement (InfixExpression (IntegerLiteral 1) ''+'' (IntegerLiteral 2))], [])
     else if src = [] then ([], [])
     else ([], [''no prefix parse function found'']))"

definition exampleWorld :: world where
  "exampleWorld =
    \<lparr>parse = parseExample, Inspect = inspectExample, JSON = inspectExample,
     GetMethod = (\<lambda>v name. None),
     nodeString = (\<lambda>n. case n of Identifier x \<Rightarrow> x | _ \<Rightarrow> []),
     otherBuiltin = (\<lambda>name. False),
     nativeFn = (\<lambda>name env args st. (Ok Null, st)),
     floatInfix = (\<lambda>operator l r. Null),
     intPow = (\<lambda>a b. 0),
     Unquote = (\<lambda>s. None),
     identical = (\<lambda>a b. False),
     searchPaths = [''/lib''],
     joinPath = (\<lambda>p b. p @ ''/'' @ b)\<rparr>"




section \<open>Auxiliary facts\<close>


lemma runes_length_le: "length (runes s) \<le> length s"
proof (induction s rule: runes.induct)
  case 1
  show ?case by simp
next
  case (2 c cs)
  have "length (drop (snd (decodeRune (c # cs)) - 1) cs) \<le> length cs"
    by simp
  with 2 have "length (runes (drop (snd (decodeRune (c # cs)) - 1) cs)) \<le> length cs"
    by (rule le_trans)
  then show ?case by simp
qed

lemma sint_of_nat_small: "n < 2 ^ 63 \<Longrightarrow> sint (of_nat n :: int64) = int n"
proof -
  assume a: "n < 2 ^ 63"
  have "int n < 2 ^ 63"
    using a by (metis of_nat_less_iff of_nat_numeral of_nat_power)
  then have "signed_take_bit 63 (int n) = int n"
    by (intro signed_take_bit_int_eq_self) auto
  then show ?thesis by (simp add: signed_of_nat)
qed

lemma unat_of_nat_small: "n < 2 ^ 63 \<Longrightarrow> unat (of_nat n :: int64) = n"
  by (simp add: unat_of_nat)









section \<open>For-each loops and errors in the body (C3)\<close>

text \<open>
  The test after the body, \<open>!isError(rt) && (rt.Type() == RETURN_VALUE_OBJ ||
  rt.Type() == ERROR_OBJ)\<close>, is false for every Error: an Error in the body does not stop
  the loop. The general step: when the body yields an Error, the loop goes on with the
  remaining items.
\<close>

lemma foreachLoop_error_continues:
  assumes "envSet child ident ret st = (Ok (), st1)"
    and "ev body child st1 = (Ok (Error m c d b), st2)"
  shows "foreachLoop ev ident [] body child ((ret, idx) # rest) st
          = foreachLoop ev ident [] body child rest st2"
  using assms by (simp add: bind_def isError_def)

text \<open>A ReturnValue from the body does end the loop and is its result.\<close>

lemma foreachLoop_return_stops:
  assumes "envSet child ident ret st = (Ok (), st1)"
    and "ev body child st1 = (Ok (ReturnValue v), st2)"
  shows "foreachLoop ev ident [] body child ((ret, idx) # rest) st = (Ok (ReturnValue v), st2)"
  using assms by (simp add: bind_def isError_def)

text \<open>
  C3 says that an Error from the body ends the for-each loop at once and is its result.
  The code does not do that. In \<open>foreach x in [1, 2] { print(x); error("boom") }\<close> the
  body yields the Error of \<open>error("boom")\<close> on the first iteration; the loop still runs
  the second iteration (both \<open>1\<close> and \<open>2\<close> are printed) and the expression yields Null.
\<close>

theorem foreach_error_does_not_stop_loop:
  "Eval exampleWorld 5
     (ForeachStatement ''x'' [] (ArrayLiteral [IntegerLiteral 1, IntegerLiteral 2])
        (BlockStatement
           [ExpressionStatement (CallExpression (Identifier ''print'') [Identifier ''x'']),
            ExpressionStatement (CallExpression (Identifier ''error'') [StringLiteral ''boom''])]))
     0 (initialState [])
   = (Ok Null,
      (initialState [])
        \<lparr>heap := heap (initialState [])
                   @ [\<lparr>store = [(''x'', Integer 2, False)], outer = Some 0,
                       permit = [''x''], currentArgs = []\<rparr>],
         stdout := [''1 '', newline, ''2 '', newline]\<rparr>)"
  by code_simp

section \<open>Integer ranges (C5)\<close>

text \<open>
  The part of C5 that the code meets: for \<open>a \<le> b\<close> with \<open>b - a + 1\<close> within \<open>int64\<close>, the range
  is the Array of \<open>b - a + 1\<close> elements whose element \<open>i\<close> is \<open>a + i\<close>.
\<close>

lemma range_ascending:
  assumes "a \<le>s b" and "sint b - sint a < 2 ^ 63 - 1"
  shows "rangeArray a b =
           Ok (Array (map (\<lambda>i. Integer (a + of_nat i)) [0..<nat (sint b - sint a + 1)]) False)"
proof -
  define n where "n = nat (sint b - sint a + 1)"
  have ab: "sint a \<le> sint b"
    using assms(1) by (simp add: word_sle_eq)
  have n: "int n = sint b - sint a + 1" and small: "n < 2 ^ 63"
    using ab assms(2) by (auto simp: n_def nat_less_iff)
  have "b - a + 1 = word_of_int (sint b - sint a + 1)"
    by simp
  also have "\<dots> = of_nat n"
    by (simp flip: n)
  finally have len: "b - a + 1 = of_nat n" .
  show ?thesis
    using small
    by (simp add: rangeArray_def Let_def len word_sless_alt sint_of_nat_small unat_of_nat_small
        flip: n_def)
qed

lemma range_operator_ascending:
  assumes "a \<le>s b" and "sint b - sint a < 2 ^ 63 - 1"
  shows "evalIntegerInfixExpression w ''..'' (Integer a) (Integer b) =
           Ok (Array (map (\<lambda>i. Integer (a + of_nat i)) [0..<nat (sint b - sint a + 1)]) False)"
  using range_ascending [OF assms] by (simp add: evalIntegerInfixExpression_def)

text \<open>
  C5 says that \<open>a..b\<close> yields an Array for all Integers, the empty one when \<open>b < a\<close>.
  The code computes the length \<open>b - a + 1\<close> and passes it to \<open>make\<close> unchecked: for
  \<open>5..3\<close> the length is \<open>-1\<close> and the interpreter dies with Go's run-time panic
  \<open>makeslice: len out of range\<close>. Only \<open>b = a - 1\<close> gives the empty Array.
\<close>

theorem range_descending_panics:
  "Eval w (Suc (Suc 0)) (InfixExpression (IntegerLiteral 5) ''..'' (IntegerLiteral 3)) env st
    = (Panic ''makeslice: len out of range'', st)"
  by (simp add: evalContext_def evalInfixCase_def bind_def isError_def pure_def
      evalInfixExpression_def evalIntegerInfixExpression_def rangeArray_def word_sless_alt)

section \<open>Integer division by zero (C9)\<close>

text \<open>
  C9 says that \<open>a / 0\<close> and \<open>a % 0\<close> are controlled fatal errors: guarded, reported by the
  evaluator and ended with its exit code. \<open>evalIntegerInfixExpression\<close> has no guard: it
  divides, and a zero divisor is Go's run-time panic \<open>integer divide by zero\<close>, which
  nothing recovers. The evaluator's own report (\<open>Error: ...\<close> and exit code 1) is never
  reached.
\<close>

theorem integer_division_by_zero_panics:
  "Eval w (Suc (Suc 0)) (InfixExpression (IntegerLiteral a) ''/'' (IntegerLiteral 0)) env st
     = (Panic ''integer divide by zero'', st)
   \<and> Eval w (Suc (Suc 0)) (InfixExpression (IntegerLiteral a) ''%'' (IntegerLiteral 0)) env st
     = (Panic ''integer divide by zero'', st)"
  by (simp add: evalContext_def evalInfixCase_def bind_def isError_def pure_def
      evalInfixExpression_def evalIntegerInfixExpression_def)

section \<open>String indexing (C10)\<close>

text \<open>
  \<open>evalStringIndexExpression\<close> lets every index up to the byte length through its range
  check and then indexes the runes. The index equal to the byte length is never below the
  number of runes, so \<open>s[len(s)]\<close> panics for every string.
\<close>

lemma string_index_at_length_panics:
  assumes "length s < 2 ^ 63"
  shows "evalStringIndexExpression w (String s) (Integer (of_nat (length s))) env st
          = (Panic ''index out of range'', st)"
  using assms runes_length_le [of s]
  by (simp add: evalStringIndexExpression_def word_sless_alt sint_of_nat_small unat_of_nat_small)

text \<open>
  The part of C10 that the code meets: an index below the number of runes yields the String of that
  rune.
\<close>

lemma string_index_in_range:
  assumes "unat idx < length (runes s)" and "length s < 2 ^ 63"
  shows "evalStringIndexExpression w (String s) (Integer idx) env st
          = (Ok (String (encodeRune (runes s ! unat idx))), st)"
proof -
  have small: "unat idx < length s"
    using assms(1) runes_length_le [of s] by simp
  have "sint (of_nat (unat idx) :: int64) = int (unat idx)"
    using small assms(2) by (intro sint_of_nat_small) simp
  then have "sint idx = uint idx"
    by simp
  moreover have "uint idx < int (length s)"
    using small by (metis of_nat_less_iff uint_nat)
  ultimately show ?thesis
    using assms by (simp add: evalStringIndexExpression_def word_sless_alt sint_of_nat_small)
qed

text \<open>
  C10 says that string indexing is total: Null for every index outside \<open>0 \<le> i <\<close> rune
  count, never a crash. The code crashes with Go's \<open>index out of range\<close> on \<open>"abc"[3]\<close>,
  on \<open>""[0]\<close>, and on index 1 of the two-byte, one-rune string \<open>"\<close>U+00E9\<open>"\<close> (bytes C3 A9).
  The array case next to it compares with \<open>len - 1\<close>; the string case compares with
  \<open>len\<close>, and with the length in bytes instead of runes.
\<close>

theorem string_index_panics:
  "Eval w (Suc (Suc 0)) (IndexExpression (StringLiteral ''abc'') (IntegerLiteral 3)) env st
     = (Panic ''index out of range'', st)
   \<and> Eval w (Suc (Suc 0)) (IndexExpression (StringLiteral []) (IntegerLiteral 0)) env st
     = (Panic ''index out of range'', st)
   \<and> Eval w (Suc (Suc 0))
       (IndexExpression (StringLiteral [CHR 0xC3, CHR 0xA9]) (IntegerLiteral 1)) env st
     = (Panic ''index out of range'', st)"
  by (simp add: evalContext_def bind_def isError_def Interpolate_def evalIndexExpression_def
      evalStringIndexExpression_def matchAt_def word_sless_alt)

section \<open>The operators \<open>&&\<close> and \<open>||\<close> (C1)\<close>




section \<open>Truthiness in \<open>if\<close> (C2)\<close>

text \<open>
  C2 says that an empty String, Integer 0, Float 0.0, an empty Array and an empty Hash
  are falsy conditions of \<open>if\<close>. \<open>evalIfExpression\<close> asks \<open>isTruthy\<close>, for which only
  \<open>FALSE\<close> and \<open>NULL\<close> are falsy: \<open>if (0) { "then" } else { "else" }\<close> yields
  \<open>"then"\<close>.
\<close>

theorem if_zero_selects_consequence:
  "Eval exampleWorld 4
     (IfExpression (IntegerLiteral 0)
        (BlockStatement [ExpressionStatement (StringLiteral ''then'')])
        (Some (BlockStatement [ExpressionStatement (StringLiteral ''else'')])))
     0 (initialState [])
   = (Ok (String ''then''), initialState [])"
  by code_simp

text \<open>
  C2 as amended: a condition that evaluates to False or Null selects the alternative
  block (Null is yielded when there is no else); every other value that is not an Error,
  the empty String, Integer 0, Float 0.0, the empty Array and the empty Hash among them,
  selects the consequent.
\<close>

theorem if_condition_truthiness:
  assumes "Eval w k condition env st = (Ok c, st1)" and "\<not> isError c"
  shows "Eval w (Suc k) (IfExpression condition consequence alternative) env st =
          (if c = Boolean False \<or> c = Null
           then (case alternative of
                   Some alt \<Rightarrow> Eval w k alt env st1
                 | None \<Rightarrow> (Ok Null, st1))
           else Eval w k consequence env st1)"
proof -
  have t: "isTruthy c = (\<not> (c = Boolean False \<or> c = Null))"
    by (cases c rule: isTruthy.cases) auto
  show ?thesis
    using assms by (simp add: evalContext_def evalIfExpression_def bind_def t)
qed

theorem if_condition_truthiness_witness:
  "Eval exampleWorld 3 (StringLiteral []) 0 (initialState []) = (Ok (String []), initialState [])
   \<and> \<not> isError (String [])
   \<and> Eval exampleWorld (Suc 3)
        (IfExpression (StringLiteral [])
           (BlockStatement [ExpressionStatement (IntegerLiteral 1)])
           (Some (BlockStatement [ExpressionStatement (IntegerLiteral 2)])))
        0 (initialState [])
      = (Ok (Integer 1), initialState [])"
proof -
  have c: "Eval exampleWorld 3 (StringLiteral []) 0 (initialState [])
            = (Ok (String []), initialState [])"
    by code_simp
  have e: "\<not> isError (String [])"
    by (simp add: isError_def)
  have b: "Eval exampleWorld 3 (BlockStatement [ExpressionStatement (IntegerLiteral 1)]) 0
             (initialState []) = (Ok (Integer 1), initialState [])"
    by code_simp
  show ?thesis
    using if_condition_truthiness [OF c e,
        of "BlockStatement [ExpressionStatement (IntegerLiteral 1)]"
           "Some (BlockStatement [ExpressionStatement (IntegerLiteral 2)])"] c e b
    by simp
qed

section \<open>Errors at a call site (C4)\<close>





section \<open>Import and the module cache (C6)\<close>




section \<open>Postfix \<open>++\<close> and \<open>--\<close> (C7)\<close>





section \<open>String interpolation (C8)\<close>




end
